theory Spec2Isabelle
  imports Main
begin

section \<open>The repository settings form (RepositorySettings.tsx)\<close>

text \<open>
  The component keeps three \<^verbatim>\<open>useState\<close> cells: \<^verbatim>\<open>initialSettings\<close> (the saved
  snapshot), \<^verbatim>\<open>settings\<close> (the draft snapshot) and \<^verbatim>\<open>additionalEnvironmentToAdd\<close>
  (the pending environment line). Every event handler is a closure over the cells of the
  last render and calls the setters; it is modelled as a function from the state at that
  render to the state after the handler.

  Strings are \<^typ>\<open>string\<close>. The two select fields hold the string that the select emits
  (\<^verbatim>\<open>event.target.value\<close>): \<^verbatim>\<open>USERS_WITH_WRITE_PERMISSIONS\<close>, \<^verbatim>\<open>COLLABORATORS\<close>,
  \<^verbatim>\<open>EVERYONE\<close> for the one, \<^verbatim>\<open>SAME_SHA\<close>, \<^verbatim>\<open>MERGE_FOR_PRS\<close>, \<^verbatim>\<open>DEFAULT_BRANCH\<close> for the
  other. \<^verbatim>\<open>cacheVersion\<close> is a JavaScript number with an integer value, modelled by that
  integer; arithmetic on it rounds as JavaScript does (see \<open>Number_add\<close> below). The two
  sequence fields are arrays of strings, never null, as the render reads their
  \<^verbatim>\<open>length\<close> and \<^verbatim>\<open>join\<close> unguarded.
\<close>

subsection \<open>Data model\<close>

record Settings =
  needsApproval :: bool
  decryptEnvironmentVariables :: string
  configResolutionStrategy :: string
  additionalEnvironment :: "string list"
  cacheVersion :: int
  oidcSubIncludeClaimKeys :: "string list"

record form_state =
  initialSettings :: Settings
  settings :: Settings
  additionalEnvironmentToAdd :: string

text \<open>The field names that the source passes to \<^verbatim>\<open>changeField\<close> and to \<^verbatim>\<open>toggleField\<close>.\<close>

datatype select_field = decryptEnvironmentVariables_field | configResolutionStrategy_field

datatype switch_field = needsApproval_field

subsection \<open>Field editors\<close>

text \<open>\<^verbatim>\<open>setSettings({...settings, [field]: event.target.value})\<close>\<close>

definition changeField :: "select_field \<Rightarrow> string \<Rightarrow> form_state \<Rightarrow> form_state" where
  "changeField field value st =
     st\<lparr>settings :=
       (case field of
          decryptEnvironmentVariables_field \<Rightarrow> (settings st)\<lparr>decryptEnvironmentVariables := value\<rparr>
        | configResolutionStrategy_field \<Rightarrow> (settings st)\<lparr>configResolutionStrategy := value\<rparr>)\<rparr>"

text \<open>
  A JavaScript number is an IEEE 754 double: \<^verbatim>\<open>a + b\<close> is the exact sum rounded to the
  nearest double, and of two nearest doubles the one with the even significand. A double
  has 53 significant bits, so the doubles of magnitude below \<^verbatim>\<open>2^53\<close> include every
  integer, and with every further binary digit of the magnitude the spacing of the
  doubles doubles: \<open>binade_ulp m\<close> is that spacing at the magnitude \<open>m\<close>. (The sum of two
  finite integer-valued doubles of which one is 1 never leaves the finite range, so
  overflow to infinity is not modelled.)
\<close>

function binade_ulp :: "nat \<Rightarrow> nat" where
  "binade_ulp m = (if m < 2 ^ 53 then 1 else 2 * binade_ulp (m div 2))"
  by pat_completeness auto
termination
  by (relation "measure id") auto

declare binade_ulp.simps [simp del]

definition round_to_double :: "int \<Rightarrow> int" where
  "round_to_double x =
     (let u = int (binade_ulp (nat \<bar>x\<bar>)); q = x div u; r = x mod u
      in if 2 * r < u then q * u
         else if u < 2 * r then (q + 1) * u
         else if even q then q * u
         else (q + 1) * u)"

definition Number_add :: "int \<Rightarrow> int \<Rightarrow> int" where
  "Number_add a b = round_to_double (a + b)"

text \<open>
  \<^verbatim>\<open>const cacheVersion = checked ? initialSettings.cacheVersion + 1 : initialSettings.cacheVersion\<close>
\<close>

definition setClearCaches :: "bool \<Rightarrow> form_state \<Rightarrow> form_state" where
  "setClearCaches checked st =
     (let cv = (if checked then Number_add (cacheVersion (initialSettings st)) 1
                else cacheVersion (initialSettings st))
      in st\<lparr>settings := (settings st)\<lparr>cacheVersion := cv\<rparr>\<rparr>)"

text \<open>\<^verbatim>\<open>setSettings({...settings, [field]: !settings[field]})\<close>\<close>

definition toggleField :: "switch_field \<Rightarrow> form_state \<Rightarrow> form_state" where
  "toggleField field st =
     st\<lparr>settings :=
       (case field of
          needsApproval_field \<Rightarrow> (settings st)\<lparr>needsApproval := \<not> needsApproval (settings st)\<rparr>)\<rparr>"

text \<open>
  \<^verbatim>\<open>xs || []\<close> on an array is the array itself, the empty one too (every array is
  truthy). \<^verbatim>\<open>xs.concat(s)\<close> with a string \<^verbatim>\<open>s\<close> appends \<^verbatim>\<open>s\<close> as one element. The
  handler reads the buffer of the last render, so the line appended is the buffer before
  it is cleared.
\<close>

definition addNewEnvVariable :: "form_state \<Rightarrow> form_state" where
  "addNewEnvVariable st =
     st\<lparr>additionalEnvironmentToAdd := [],
        settings := (settings st)\<lparr>additionalEnvironment :=
          additionalEnvironment (settings st) @ [additionalEnvironmentToAdd st]\<rparr>\<rparr>"

definition deleteEnv :: "string \<Rightarrow> form_state \<Rightarrow> form_state" where
  "deleteEnv line st =
     st\<lparr>settings := (settings st)\<lparr>additionalEnvironment :=
       filter (\<lambda>value. line \<noteq> value) (additionalEnvironment (settings st))\<rparr>\<rparr>"

text \<open>The pending line's input: \<^verbatim>\<open>setAdditionalEnvironmentToAdd(event.target.value)\<close>.\<close>

definition setAdditionalEnvironmentToAdd :: "string \<Rightarrow> form_state \<Rightarrow> form_state" where
  "setAdditionalEnvironmentToAdd value st = st\<lparr>additionalEnvironmentToAdd := value\<rparr>"

text \<open>
  \<^verbatim>\<open>String.prototype.split\<close> with a separator of one character: the text is cut at every
  occurrence of the separator, nothing is trimmed and empty pieces are kept, so the
  empty text gives one empty piece. \<open>split_from sep cur s\<close> scans \<open>s\<close> with \<open>cur\<close> the piece
  read so far.
\<close>

primrec split_from :: "char \<Rightarrow> string \<Rightarrow> string \<Rightarrow> string list" where
  "split_from sep cur [] = [cur]"
| "split_from sep cur (c # cs) =
     (if c = sep then cur # split_from sep [] cs else split_from sep (cur @ [c]) cs)"

definition String_split :: "string \<Rightarrow> char \<Rightarrow> string list" where
  "String_split s sep = split_from sep [] s"

text \<open>
  \<^verbatim>\<open>Array.prototype.join\<close> with a separator of one character, which renders the claim
  keys into the text input.
\<close>

fun Array_join :: "string list \<Rightarrow> char \<Rightarrow> string" where
  "Array_join [] sep = []"
| "Array_join [x] sep = x"
| "Array_join (x # y # ys) sep = x @ sep # Array_join (y # ys) sep"

text \<open>
  The claim-keys input:
  \<^verbatim>\<open>setSettings({...settings, oidcSubIncludeClaimKeys: event.target.value.split(',')})\<close>
\<close>

definition oidcSubIncludeClaimKeys_onChange :: "string \<Rightarrow> form_state \<Rightarrow> form_state" where
  "oidcSubIncludeClaimKeys_onChange value st =
     st\<lparr>settings := (settings st)\<lparr>oidcSubIncludeClaimKeys := String_split value (CHR '','')\<rparr>\<rparr>"

text \<open>The checkbox: \<^verbatim>\<open>checked={initialSettings.cacheVersion !== settings.cacheVersion}\<close>.\<close>

definition clearCaches_checked :: "form_state \<Rightarrow> bool" where
  "clearCaches_checked st = (cacheVersion (initialSettings st) \<noteq> cacheVersion (settings st))"

subsection \<open>The local edits as one step function\<close>

datatype edit =
    ChangeField select_field string
  | SetClearCaches bool
  | ToggleField switch_field
  | AddNewEnvVariable
  | DeleteEnv string
  | SetAdditionalEnvironmentToAdd string
  | OidcSubIncludeClaimKeysChange string

fun apply_edit :: "form_state \<Rightarrow> edit \<Rightarrow> form_state" where
  "apply_edit st (ChangeField field value) = changeField field value st"
| "apply_edit st (SetClearCaches checked) = setClearCaches checked st"
| "apply_edit st (ToggleField field) = toggleField field st"
| "apply_edit st AddNewEnvVariable = addNewEnvVariable st"
| "apply_edit st (DeleteEnv line) = deleteEnv line st"
| "apply_edit st (SetAdditionalEnvironmentToAdd value) = setAdditionalEnvironmentToAdd value st"
| "apply_edit st (OidcSubIncludeClaimKeysChange value) = oidcSubIncludeClaimKeys_onChange value st"

definition apply_edits :: "form_state \<Rightarrow> edit list \<Rightarrow> form_state" where
  "apply_edits st es = foldl apply_edit st es"

subsection \<open>Dirty check\<close>

text \<open>
  \<^verbatim>\<open>JSON.stringify\<close> on an array of strings, after ECMA-262 (SerializeJSONArray with an
  empty gap, QuoteJSONString, UnicodeEscape): the elements are quoted, separated by
  commas and enclosed in brackets. Inside the quotes, backspace, tab, line feed, form
  feed, carriage return, the double quote and the backslash get their two-character
  escapes, any other code unit below \<^verbatim>\<open>0x20\<close> is written as a backslash, \<^verbatim>\<open>u\<close> and four
  lowercase hexadecimal digits, and every other code unit stands for itself.
  (A \<^typ>\<open>char\<close> is one byte, so the lone surrogates that ECMA-262 escapes as well do not
  occur.)
\<close>

definition hex_digit :: "nat \<Rightarrow> char" where
  "hex_digit n = (if n < 10 then char_of (48 + n) else char_of (87 + n))"

definition UnicodeEscape :: "char \<Rightarrow> string" where
  "UnicodeEscape c =
     (let n = (of_char c :: nat)
      in [CHR 0x5C, CHR ''u'', hex_digit (n div 4096 mod 16), hex_digit (n div 256 mod 16),
          hex_digit (n div 16 mod 16), hex_digit (n mod 16)])"

definition QuoteJSONChar :: "char \<Rightarrow> string" where
  "QuoteJSONChar c =
     (if c = CHR 0x08 then [CHR 0x5C, CHR ''b'']
      else if c = CHR 0x09 then [CHR 0x5C, CHR ''t'']
      else if c = CHR 0x0A then [CHR 0x5C, CHR ''n'']
      else if c = CHR 0x0C then [CHR 0x5C, CHR ''f'']
      else if c = CHR 0x0D then [CHR 0x5C, CHR ''r'']
      else if c = CHR 0x22 then [CHR 0x5C, CHR 0x22]
      else if c = CHR 0x5C then [CHR 0x5C, CHR 0x5C]
      else if (of_char c :: nat) < 0x20 then UnicodeEscape c
      else [c])"

definition QuoteJSONString :: "string \<Rightarrow> string" where
  "QuoteJSONString s = CHR 0x22 # concat (map QuoteJSONChar s) @ [CHR 0x22]"

definition JSON_stringify :: "string list \<Rightarrow> string" where
  "JSON_stringify xs =
     CHR ''['' # Array_join (map QuoteJSONString xs) (CHR '','') @ [CHR '']'']"

text \<open>
  \<^verbatim>\<open>areSettingsTheSame\<close> is computed at every render from the two snapshots; \<^verbatim>\<open>===\<close> on
  booleans, strings and numbers is equality of values. The Save button has
  \<^verbatim>\<open>disabled={areSettingsTheSame}\<close>.
\<close>

definition areSettingsTheSame :: "form_state \<Rightarrow> bool" where
  "areSettingsTheSame st \<longleftrightarrow>
     needsApproval (settings st) = needsApproval (initialSettings st) \<and>
     configResolutionStrategy (settings st) = configResolutionStrategy (initialSettings st) \<and>
     JSON_stringify (additionalEnvironment (settings st))
       = JSON_stringify (additionalEnvironment (initialSettings st)) \<and>
     JSON_stringify (oidcSubIncludeClaimKeys (settings st))
       = JSON_stringify (oidcSubIncludeClaimKeys (initialSettings st)) \<and>
     decryptEnvironmentVariables (settings st) = decryptEnvironmentVariables (initialSettings st) \<and>
     cacheVersion (settings st) = cacheVersion (initialSettings st)"

definition Save_disabled :: "form_state \<Rightarrow> bool" where
  "Save_disabled st = areSettingsTheSame st"

subsection \<open>Saving\<close>

text \<open>
  \<^verbatim>\<open>onSave\<close> builds the mutation's input from the draft and the repository's id and hands
  it to \<^verbatim>\<open>commitSaveSettingsMutation\<close> with two callbacks. \<^verbatim>\<open>xs.concat()\<close> is a copy of
  \<^verbatim>\<open>xs\<close>.
\<close>

record RepositorySettingsInput =
  input_clientMutationId :: string
  input_repositoryId :: string
  input_needsApproval :: bool
  input_decryptEnvironmentVariables :: string
  input_configResolutionStrategy :: string
  input_additionalEnvironment :: "string list"
  input_cacheVersion :: int
  input_oidcSubIncludeClaimKeys :: "string list"

definition onSave_variables :: "string \<Rightarrow> form_state \<Rightarrow> RepositorySettingsInput" where
  "onSave_variables repository_id st =
     \<lparr>input_clientMutationId = ''save-settings-'' @ repository_id,
      input_repositoryId = repository_id,
      input_needsApproval = needsApproval (settings st),
      input_decryptEnvironmentVariables = decryptEnvironmentVariables (settings st),
      input_configResolutionStrategy = configResolutionStrategy (settings st),
      input_additionalEnvironment = additionalEnvironment (settings st),
      input_cacheVersion = cacheVersion (settings st),
      input_oidcSubIncludeClaimKeys = oidcSubIncludeClaimKeys (settings st)\<rparr>"

text \<open>
  The response of the mutation holds the settings as \<^verbatim>\<open>response.saveSettings.settings\<close>.
  The second argument of \<^verbatim>\<open>onCompleted\<close> is the response's error list, or null when
  there is none; \<^verbatim>\<open>if (errors)\<close> takes every list, the empty one too. The console is the
  sequence of entries written to it.
\<close>

type_synonym PayloadError = string

record saveSettings_payload =
  payload_settings :: Settings

record RepositorySettingsMutation_data =
  saveSettings :: saveSettings_payload

datatype console_entry = console_log "PayloadError list" | console_error string

type_synonym world = "form_state \<times> console_entry list"

definition onCompleted ::
    "RepositorySettingsMutation_data \<Rightarrow> PayloadError list option \<Rightarrow> world \<Rightarrow> world" where
  "onCompleted response errors w =
     (case errors of
        Some errs \<Rightarrow> (fst w, snd w @ [console_log errs])
      | None \<Rightarrow> ((fst w)\<lparr>initialSettings := payload_settings (saveSettings response)\<rparr>, snd w))"

definition onError :: "string \<Rightarrow> world \<Rightarrow> world" where
  "onError err w = (fst w, snd w @ [console_error err])"

text \<open>
  What \<^verbatim>\<open>commitSaveSettingsMutation\<close> does with the request is outside the component: it
  ends in one call of one of the two callbacks.
\<close>

datatype mutation_outcome =
    Completed RepositorySettingsMutation_data "PayloadError list option"
  | Errored string

fun save_outcome :: "mutation_outcome \<Rightarrow> world \<Rightarrow> world" where
  "save_outcome (Completed response errors) w = onCompleted response errors w"
| "save_outcome (Errored err) w = onError err w"

subsection \<open>Example snapshots\<close>

text \<open>
  A saved snapshot, a draft with one environment line that ends in a blank, and the
  response of a server that strips the blank.
\<close>

definition example_saved :: Settings where
  "example_saved =
     \<lparr>needsApproval = False, decryptEnvironmentVariables = ''USERS_WITH_WRITE_PERMISSIONS'',
      configResolutionStrategy = ''SAME_SHA'', additionalEnvironment = [],
      cacheVersion = 3, oidcSubIncludeClaimKeys = []\<rparr>"

definition example_draft :: Settings where
  "example_draft = example_saved\<lparr>additionalEnvironment := [''FOO=Bar '']\<rparr>"

definition example_response :: RepositorySettingsMutation_data where
  "example_response =
     \<lparr>saveSettings = \<lparr>payload_settings = example_saved\<lparr>additionalEnvironment := [''FOO=Bar'']\<rparr>\<rparr>\<rparr>"

section \<open>Properties\<close>

subsection \<open>Saving\<close>

text \<open>
  Claim C1, as amended. On a successful save (\<^verbatim>\<open>onCompleted\<close> called with no error list)
  the saved snapshot becomes the settings value that the server returned. The draft
  snapshot, the pending line and the console are left as they were: nothing sets the
  draft to the server's value, so after the save the draft equals the saved snapshot
  exactly when the server returned the value that the draft holds.
\<close>

theorem save_success_replaces_saved_only:
  "initialSettings (fst (save_outcome (Completed response None) (st, out)))
     = payload_settings (saveSettings response)
   \<and> settings (fst (save_outcome (Completed response None) (st, out))) = settings st
   \<and> additionalEnvironmentToAdd (fst (save_outcome (Completed response None) (st, out)))
     = additionalEnvironmentToAdd st
   \<and> snd (save_outcome (Completed response None) (st, out)) = out
   \<and> ((settings (fst (save_outcome (Completed response None) (st, out)))
        = initialSettings (fst (save_outcome (Completed response None) (st, out))))
      = (settings st = payload_settings (saveSettings response)))"
  by (simp add: onCompleted_def)

text \<open>
  Claim C1 as the specification states it fails: with the draft \<open>example_draft\<close> and a
  server that answers \<open>example_response\<close> (the environment line without its trailing
  blank), the saved snapshot is the server's value and the draft is not.
\<close>

theorem save_success_draft_not_synchronized:
  "initialSettings (fst (save_outcome (Completed example_response None)
       (\<lparr>initialSettings = example_saved, settings = example_draft,
         additionalEnvironmentToAdd = []\<rparr>, [])))
     = payload_settings (saveSettings example_response)
   \<and> settings (fst (save_outcome (Completed example_response None)
       (\<lparr>initialSettings = example_saved, settings = example_draft,
         additionalEnvironmentToAdd = []\<rparr>, [])))
     \<noteq> payload_settings (saveSettings example_response)"
  by (simp add: onCompleted_def example_response_def example_draft_def example_saved_def)

text \<open>
  Claim C2. A save attempt that fails, whether \<^verbatim>\<open>onCompleted\<close> receives an error list or
  \<^verbatim>\<open>onError\<close> is called, writes one entry to the console and leaves the whole store (the
  saved snapshot, the draft snapshot and the pending line) as it was.
\<close>

theorem save_failure_leaves_store_unchanged:
  "fst (save_outcome (Completed response (Some errs)) (st, out)) = st
   \<and> snd (save_outcome (Completed response (Some errs)) (st, out)) = out @ [console_log errs]
   \<and> fst (save_outcome (Errored err) (st, out)) = st
   \<and> snd (save_outcome (Errored err) (st, out)) = out @ [console_error err]"
  by (simp add: onCompleted_def onError_def)

subsection \<open>Dirty check\<close>

lemma of_char_hex_digit:
  "n < 16 \<Longrightarrow> (of_char (hex_digit n) :: nat) = (if n < 10 then 48 + n else 87 + n)"
  by (simp add: hex_digit_def)

lemma hex_digit_inj:
  assumes "m < 16" and "n < 16" and "hex_digit m = hex_digit n"
  shows "m = n"
proof -
  from assms(3) have "(of_char (hex_digit m) :: nat) = of_char (hex_digit n)"
    by simp
  with assms(1,2) show ?thesis
    by (simp add: of_char_hex_digit split: if_splits)
qed

lemma div16_small: "(n::nat) < 256 \<Longrightarrow> n div 16 mod 16 = n div 16"
  by (simp add: div_less_iff_less_mult)

lemma nat_of_hex_parts:
  assumes "(n::nat) < 256" "m < 256"
    and "n div 16 mod 16 = m div 16 mod 16" "n mod 16 = m mod 16"
  shows "n = m"
proof -
  have "n div 16 = m div 16"
    using assms by (simp add: div16_small)
  then have "16 * (n div 16) + n mod 16 = 16 * (m div 16) + m mod 16"
    using assms by simp
  then show ?thesis
    by (simp only: mult_div_mod_eq)
qed

lemma UnicodeEscape_digits:
  assumes "UnicodeEscape c = UnicodeEscape d"
  shows "hex_digit (of_char c div 16 mod 16) = hex_digit (of_char d div 16 mod 16)"
    and "hex_digit (of_char c mod 16) = hex_digit (of_char d mod 16)"
  using assms by (simp_all add: UnicodeEscape_def Let_def)

lemma UnicodeEscape_shape:
  "\<exists>a b e f. UnicodeEscape c = [CHR 0x5C, CHR ''u'', a, b, e, f]"
  by (simp add: UnicodeEscape_def Let_def)

lemma UnicodeEscape_inj:
  assumes "UnicodeEscape c = UnicodeEscape d"
  shows "c = d"
proof -
  let ?n = "of_char c :: nat" and ?m = "of_char d :: nat"
  have "?n div 16 mod 16 = ?m div 16 mod 16"
    by (rule hex_digit_inj [OF _ _ UnicodeEscape_digits(1) [OF assms]]) simp_all
  moreover have "?n mod 16 = ?m mod 16"
    by (rule hex_digit_inj [OF _ _ UnicodeEscape_digits(2) [OF assms]]) simp_all
  moreover have "?n < 256" "?m < 256"
    by simp_all
  ultimately have "?n = ?m"
    by (rule nat_of_hex_parts [rotated 2])
  then show ?thesis
    by simp
qed

text \<open>
  A quoted character is the character itself (then neither the quote nor the backslash),
  a backslash and one letter other than \<open>u\<close>, or a Unicode escape.
\<close>

lemma QuoteJSONChar_cases:
  "(QuoteJSONChar c = [c] \<and> c \<noteq> CHR 0x5C \<and> c \<noteq> CHR 0x22)
   \<or> (\<exists>e. QuoteJSONChar c = [CHR 0x5C, e] \<and> e \<noteq> CHR ''u'')
   \<or> QuoteJSONChar c = UnicodeEscape c"
  unfolding QuoteJSONChar_def by (simp del: of_char_Char)

lemma QuoteJSONChar_short_inj:
  "QuoteJSONChar c = [CHR 0x5C, e] \<Longrightarrow> QuoteJSONChar d = [CHR 0x5C, e] \<Longrightarrow> c = d"
  unfolding QuoteJSONChar_def UnicodeEscape_def Let_def
  by (auto simp del: of_char_Char split: if_splits)

text \<open>The quoted characters form a prefix code, and none begins with the closing quote.\<close>

lemma QuoteJSONChar_prefix:
  assumes "QuoteJSONChar c @ r = QuoteJSONChar d @ r'"
  shows "c = d \<and> r = r'"
  using assms QuoteJSONChar_cases [of c] QuoteJSONChar_cases [of d]
    UnicodeEscape_shape [of c] UnicodeEscape_shape [of d]
  by (auto dest: QuoteJSONChar_short_inj intro: UnicodeEscape_inj)

lemma QuoteJSONChar_not_quote: "QuoteJSONChar c @ r \<noteq> CHR 0x22 # r'"
  using QuoteJSONChar_cases [of c] UnicodeEscape_shape [of c] by auto

lemma concat_QuoteJSONChar_prefix:
  "concat (map QuoteJSONChar s) @ CHR 0x22 # r = concat (map QuoteJSONChar t) @ CHR 0x22 # r'
   \<Longrightarrow> s = t \<and> r = r'"
proof (induction s arbitrary: t)
  case Nil
  then show ?case
    by (cases t) (auto simp: QuoteJSONChar_not_quote [symmetric])
next
  case (Cons c s)
  show ?case
  proof (cases t)
    case Nil
    with Cons.prems show ?thesis
      by (auto simp: QuoteJSONChar_not_quote)
  next
    case (Cons d t')
    with Cons.prems
    have "QuoteJSONChar c @ (concat (map QuoteJSONChar s) @ CHR 0x22 # r)
        = QuoteJSONChar d @ (concat (map QuoteJSONChar t') @ CHR 0x22 # r')"
      by simp
    then have "c = d"
      and "concat (map QuoteJSONChar s) @ CHR 0x22 # r
        = concat (map QuoteJSONChar t') @ CHR 0x22 # r'"
      by (auto dest: QuoteJSONChar_prefix)
    with Cons.IH [of t'] Cons show ?thesis
      by simp
  qed
qed

lemma QuoteJSONString_prefix:
  "QuoteJSONString s @ r = QuoteJSONString t @ r' \<Longrightarrow> s = t \<and> r = r'"
  using concat_QuoteJSONChar_prefix [of s r t r'] by (simp add: QuoteJSONString_def)

lemma QuoteJSONString_Cons: "\<exists>r. QuoteJSONString s = CHR 0x22 # r"
  by (simp add: QuoteJSONString_def)

lemma Array_join_Cons:
  "Array_join (x # xs) sep = x @ (if xs = [] then [] else sep # Array_join xs sep)"
  by (cases xs) simp_all

lemma Array_join_QuoteJSONString_prefix:
  "Array_join (map QuoteJSONString xs) (CHR '','') @ CHR '']'' # r
     = Array_join (map QuoteJSONString ys) (CHR '','') @ CHR '']'' # r'
   \<Longrightarrow> xs = ys \<and> r = r'"
proof (induction xs arbitrary: ys)
  case Nil
  show ?case
  proof (cases ys)
    case Nil
    with Nil.prems show ?thesis
      by simp
  next
    case (Cons y ys')
    obtain q where "QuoteJSONString y = CHR 0x22 # q"
      using QuoteJSONString_Cons by blast
    with Nil.prems Cons show ?thesis
      by (simp add: Array_join_Cons)
  qed
next
  case (Cons x xs)
  show ?case
  proof (cases ys)
    case Nil
    obtain q where "QuoteJSONString x = CHR 0x22 # q"
      using QuoteJSONString_Cons by blast
    with Cons.prems Nil show ?thesis
      by (simp add: Array_join_Cons)
  next
    case ys: (Cons y ys')
    let ?rest = "\<lambda>zs r.
      (if zs = [] then [] else CHR '','' # Array_join (map QuoteJSONString zs) (CHR '',''))
        @ CHR '']'' # r"
    from Cons.prems ys
    have "QuoteJSONString x @ ?rest xs r = QuoteJSONString y @ ?rest ys' r'"
      by (simp add: Array_join_Cons)
    then have both: "x = y \<and> ?rest xs r = ?rest ys' r'"
      by (rule QuoteJSONString_prefix)
    from both have xy: "x = y"
      by (rule conjunct1)
    from both have rest: "?rest xs r = ?rest ys' r'"
      by (rule conjunct2)
    from rest have "xs = ys' \<and> r = r'"
      using Cons.IH [of ys'] by (auto split: if_splits)
    with xy ys show ?thesis
      by simp
  qed
qed

text \<open>Two arrays of strings have the same serialization only when they are equal.\<close>

lemma JSON_stringify_inj: "JSON_stringify xs = JSON_stringify ys \<longleftrightarrow> xs = ys"
  using Array_join_QuoteJSONString_prefix [of xs "[]" ys "[]"]
  by (auto simp: JSON_stringify_def)

text \<open>
  Claim C3. The dirty check of the specification is the negation of
  \<^verbatim>\<open>areSettingsTheSame\<close>. For every saved snapshot and every draft snapshot,
  \<open>areSettingsTheSame\<close> holds if and only if the six fields agree: the four scalar fields
  are equal and the two sequence fields are equal as sequences, element by element in
  order (the comparison of the serializations decides exactly that). Two environment
  sequences with the same lines in a different order therefore count as different.
\<close>

theorem areSettingsTheSame_iff_fields_agree:
  "(areSettingsTheSame \<lparr>initialSettings = saved, settings = draft, additionalEnvironmentToAdd = b\<rparr>
     \<longleftrightarrow>
       needsApproval draft = needsApproval saved \<and>
       configResolutionStrategy draft = configResolutionStrategy saved \<and>
       decryptEnvironmentVariables draft = decryptEnvironmentVariables saved \<and>
       cacheVersion draft = cacheVersion saved \<and>
       additionalEnvironment draft = additionalEnvironment saved \<and>
       oidcSubIncludeClaimKeys draft = oidcSubIncludeClaimKeys saved)
   \<and> \<not> areSettingsTheSame
       \<lparr>initialSettings = saved\<lparr>additionalEnvironment := [''A=1'', ''B=2'']\<rparr>,
        settings = draft\<lparr>additionalEnvironment := [''B=2'', ''A=1'']\<rparr>,
        additionalEnvironmentToAdd = b\<rparr>
   \<and> \<not> areSettingsTheSame
       \<lparr>initialSettings = saved\<lparr>oidcSubIncludeClaimKeys := [''branch'', ''user_permission'']\<rparr>,
        settings = draft\<lparr>oidcSubIncludeClaimKeys := [''user_permission'', ''branch'']\<rparr>,
        additionalEnvironmentToAdd = b\<rparr>"
  by (auto simp: areSettingsTheSame_def JSON_stringify_inj)

text \<open>
  Claim C4. When the draft snapshot is the saved snapshot, \<open>areSettingsTheSame\<close> holds
  (the dirty check of the specification is false), so the Save button is disabled.
\<close>

theorem areSettingsTheSame_refl:
  "areSettingsTheSame \<lparr>initialSettings = S, settings = S, additionalEnvironmentToAdd = b\<rparr>
   \<and> Save_disabled \<lparr>initialSettings = S, settings = S, additionalEnvironmentToAdd = b\<rparr>"
  by (simp add: Save_disabled_def areSettingsTheSame_def)

subsection \<open>Field editors\<close>

lemma binade_ulp_small: "m < 2 ^ 53 \<Longrightarrow> binade_ulp m = 1"
  by (subst binade_ulp.simps) simp

lemma binade_ulp_next: "2 ^ 53 \<le> m \<Longrightarrow> m < 2 ^ 54 \<Longrightarrow> binade_ulp m = 2"
  by (subst binade_ulp.simps) (simp add: binade_ulp_small)

text \<open>Every integer of magnitude up to \<^verbatim>\<open>2^53\<close> is a double; \<^verbatim>\<open>2^53 + 1\<close> is not.\<close>

lemma round_to_double_small: "\<bar>x\<bar> < 2 ^ 53 \<Longrightarrow> round_to_double x = x"
  by (simp add: round_to_double_def binade_ulp_small)

lemma round_to_double_2_53: "round_to_double (2 ^ 53) = 2 ^ 53"
  by (simp add: round_to_double_def binade_ulp_next)

lemma round_to_double_2_53_plus_1: "round_to_double (2 ^ 53 + 1) = 2 ^ 53"
  by (simp add: round_to_double_def binade_ulp_next)

lemma Number_add_1_exact:
  assumes "- (2 ^ 53) \<le> n" and "n < 2 ^ 53"
  shows "Number_add n 1 = n + 1"
proof (cases "n + 1 = 2 ^ 53")
  case True
  then show ?thesis
    using round_to_double_2_53 by (simp add: Number_add_def)
next
  case False
  with assms have "\<bar>n + 1\<bar> < 2 ^ 53"
    by simp
  then show ?thesis
    unfolding Number_add_def by (rule round_to_double_small)
qed

text \<open>
  Claim C5, as amended. Checking the clear-caches box sets the draft's \<^verbatim>\<open>cacheVersion\<close>
  to the JavaScript sum of the saved \<^verbatim>\<open>cacheVersion\<close> and 1, which is the saved
  \<^verbatim>\<open>cacheVersion\<close> plus one whenever the saved \<^verbatim>\<open>cacheVersion\<close> is at least \<^verbatim>\<open>-2^53\<close> and
  below \<^verbatim>\<open>2^53\<close>. Unchecking the box sets the draft's \<^verbatim>\<open>cacheVersion\<close> to the saved one, so
  checking and then unchecking leaves it equal to the saved one, for every saved and
  every draft snapshot. What the box displays is computed from the two snapshots: it is
  checked exactly when the two versions differ.
\<close>

theorem setClearCaches_check_uncheck_safe_range:
  "cacheVersion (settings (setClearCaches True st))
     = Number_add (cacheVersion (initialSettings st)) 1
   \<and> (- (2 ^ 53) \<le> cacheVersion (initialSettings st) \<and> cacheVersion (initialSettings st) < 2 ^ 53
      \<longrightarrow> cacheVersion (settings (setClearCaches True st)) = cacheVersion (initialSettings st) + 1)
   \<and> cacheVersion (settings (setClearCaches False st)) = cacheVersion (initialSettings st)
   \<and> cacheVersion (settings (setClearCaches False (setClearCaches True st)))
     = cacheVersion (initialSettings st)
   \<and> clearCaches_checked st = (cacheVersion (settings st) \<noteq> cacheVersion (initialSettings st))"
  by (auto simp: setClearCaches_def clearCaches_checked_def Number_add_1_exact)

text \<open>
  The theorem at a saved \<^verbatim>\<open>cacheVersion\<close> of 3: checking gives 4, and checking and then
  unchecking gives 3 again.
\<close>

theorem setClearCaches_check_uncheck_witness:
  "(- (2 ^ 53) \<le> (3::int) \<and> (3::int) < 2 ^ 53)
   \<and> cacheVersion (settings (setClearCaches True
        \<lparr>initialSettings = example_saved, settings = example_draft,
         additionalEnvironmentToAdd = []\<rparr>)) = 4
   \<and> cacheVersion (settings (setClearCaches False (setClearCaches True
        \<lparr>initialSettings = example_saved, settings = example_draft,
         additionalEnvironmentToAdd = []\<rparr>))) = 3"
  using setClearCaches_check_uncheck_safe_range
    [of "\<lparr>initialSettings = example_saved, settings = example_draft,
          additionalEnvironmentToAdd = []\<rparr>"]
  by (simp add: example_saved_def)

text \<open>
  Claim C5 as the specification states it fails outside that range: with a saved
  \<^verbatim>\<open>cacheVersion\<close> of \<^verbatim>\<open>2^53 = 9007199254740992\<close>, checking the box leaves the draft's
  \<^verbatim>\<open>cacheVersion\<close> at \<^verbatim>\<open>2^53\<close>, which is not the saved one plus one, and the box is displayed
  unchecked.
\<close>

theorem setClearCaches_check_rounds_at_2_53:
  "cacheVersion (settings (setClearCaches True
       \<lparr>initialSettings = example_saved\<lparr>cacheVersion := 9007199254740992\<rparr>,
        settings = example_saved\<lparr>cacheVersion := 9007199254740992\<rparr>,
        additionalEnvironmentToAdd = []\<rparr>)) = 9007199254740992
   \<and> cacheVersion (settings (setClearCaches True
       \<lparr>initialSettings = example_saved\<lparr>cacheVersion := 9007199254740992\<rparr>,
        settings = example_saved\<lparr>cacheVersion := 9007199254740992\<rparr>,
        additionalEnvironmentToAdd = []\<rparr>))
     \<noteq> cacheVersion (initialSettings
       \<lparr>initialSettings = example_saved\<lparr>cacheVersion := 9007199254740992\<rparr>,
        settings = example_saved\<lparr>cacheVersion := 9007199254740992\<rparr>,
        additionalEnvironmentToAdd = []\<rparr>) + 1
   \<and> \<not> clearCaches_checked (setClearCaches True
       \<lparr>initialSettings = example_saved\<lparr>cacheVersion := 9007199254740992\<rparr>,
        settings = example_saved\<lparr>cacheVersion := 9007199254740992\<rparr>,
        additionalEnvironmentToAdd = []\<rparr>)"
  using round_to_double_2_53_plus_1
  by (simp add: setClearCaches_def clearCaches_checked_def Number_add_def)

lemma split_from_not_Nil: "split_from sep cur s \<noteq> []"
  by (induction s arbitrary: cur) simp_all

lemma Array_join_split_from: "Array_join (split_from sep cur s) sep = cur @ s"
  by (induction s arbitrary: cur) (simp_all add: Array_join_Cons split_from_not_Nil)

lemma length_split_from: "length (split_from sep cur s) = Suc (count_list s sep)"
  by (induction s arbitrary: cur) simp_all

text \<open>
  Claim C6. Editing the claim-keys input sets the draft's \<^verbatim>\<open>oidcSubIncludeClaimKeys\<close> to
  the input text split at its commas. The text \<^verbatim>\<open>a,b,c\<close> gives the three keys, the empty
  text gives one empty key, and \<^verbatim>\<open>a,\<close> gives \<^verbatim>\<open>a\<close> and an empty key. Nothing is trimmed
  or dropped: joining the pieces with commas gives the text back, and there is one
  piece more than the text has commas.
\<close>

theorem oidcSubIncludeClaimKeys_onChange_splits:
  "oidcSubIncludeClaimKeys (settings (oidcSubIncludeClaimKeys_onChange text st))
     = String_split text (CHR '','')
   \<and> String_split ''a,b,c'' (CHR '','') = [''a'', ''b'', ''c'']
   \<and> String_split [] (CHR '','') = [[]]
   \<and> String_split ''a,'' (CHR '','') = [''a'', []]
   \<and> Array_join (String_split text (CHR '','')) (CHR '','') = text
   \<and> length (String_split text (CHR '','')) = Suc (count_list text (CHR '',''))"
  by (simp add: oidcSubIncludeClaimKeys_onChange_def String_split_def
      Array_join_split_from length_split_from)

lemma filter_neq_eq_self: "filter (\<lambda>value. line \<noteq> value) xs = xs \<longleftrightarrow> line \<notin> set xs"
  by (auto simp: filter_id_conv)

lemma count_list_filter_neq: "count_list (filter (\<lambda>value. line \<noteq> value) xs) line = 0"
  by (induction xs) simp_all

text \<open>
  Claim C7. Removing an environment line keeps exactly the lines different from it, so
  no occurrence of the line is left. Appending a line \<open>line\<close> (typing it into the pending
  buffer and committing) and then removing it leaves the earlier sequence without every
  occurrence of \<open>line\<close>: that is the earlier sequence itself exactly when \<open>line\<close> did not
  occur in it.
\<close>

theorem deleteEnv_after_addNewEnvVariable:
  "additionalEnvironment (settings (deleteEnv line st))
     = filter (\<lambda>value. line \<noteq> value) (additionalEnvironment (settings st))
   \<and> count_list (additionalEnvironment (settings (deleteEnv line st))) line = 0
   \<and> additionalEnvironment (settings
        (deleteEnv line (addNewEnvVariable (setAdditionalEnvironmentToAdd line st))))
     = filter (\<lambda>value. line \<noteq> value) (additionalEnvironment (settings st))
   \<and> ((additionalEnvironment (settings
          (deleteEnv line (addNewEnvVariable (setAdditionalEnvironmentToAdd line st))))
        = additionalEnvironment (settings st))
      = (line \<notin> set (additionalEnvironment (settings st))))"
  by (simp add: deleteEnv_def addNewEnvVariable_def setAdditionalEnvironmentToAdd_def
      filter_neq_eq_self count_list_filter_neq)

lemma initialSettings_apply_edit: "initialSettings (apply_edit st e) = initialSettings st"
  by (cases e)
    (simp_all add: changeField_def setClearCaches_def toggleField_def addNewEnvVariable_def
      deleteEnv_def setAdditionalEnvironmentToAdd_def oidcSubIncludeClaimKeys_onChange_def)

lemma initialSettings_foldl_apply_edit:
  "initialSettings (foldl apply_edit st es) = initialSettings st"
  by (induction es arbitrary: st) (simp_all add: initialSettings_apply_edit)

text \<open>
  Claim C8. No local edit changes the saved snapshot: after any sequence of select
  changes, switch toggles, clear-caches toggles, environment-line commits and removals,
  pending-line input and claim-key edits, the saved snapshot is the one before the
  sequence.
\<close>

theorem local_edits_keep_saved:
  "initialSettings (apply_edits st es) = initialSettings st"
  by (simp add: apply_edits_def initialSettings_foldl_apply_edit)

text \<open>
  Claim C9. Every field editor gives the draft it found with one field overwritten: the
  new draft is the old draft with the editor's own field set to the new draft's value
  of that field, so the five other fields are unchanged.
\<close>

theorem editors_overwrite_one_field:
  "settings (changeField decryptEnvironmentVariables_field value st)
     = (settings st)\<lparr>decryptEnvironmentVariables :=
         decryptEnvironmentVariables (settings (changeField decryptEnvironmentVariables_field value st))\<rparr>
   \<and> settings (changeField configResolutionStrategy_field value st)
     = (settings st)\<lparr>configResolutionStrategy :=
         configResolutionStrategy (settings (changeField configResolutionStrategy_field value st))\<rparr>
   \<and> settings (toggleField needsApproval_field st)
     = (settings st)\<lparr>needsApproval := needsApproval (settings (toggleField needsApproval_field st))\<rparr>
   \<and> settings (setClearCaches checked st)
     = (settings st)\<lparr>cacheVersion := cacheVersion (settings (setClearCaches checked st))\<rparr>
   \<and> settings (addNewEnvVariable st)
     = (settings st)\<lparr>additionalEnvironment := additionalEnvironment (settings (addNewEnvVariable st))\<rparr>
   \<and> settings (deleteEnv line st)
     = (settings st)\<lparr>additionalEnvironment := additionalEnvironment (settings (deleteEnv line st))\<rparr>
   \<and> settings (oidcSubIncludeClaimKeys_onChange text st)
     = (settings st)\<lparr>oidcSubIncludeClaimKeys :=
         oidcSubIncludeClaimKeys (settings (oidcSubIncludeClaimKeys_onChange text st))\<rparr>"
  by (simp add: changeField_def setClearCaches_def toggleField_def addNewEnvVariable_def
      deleteEnv_def oidcSubIncludeClaimKeys_onChange_def Let_def)

text \<open>
  Claim C10. Committing the pending line checks nothing: whatever the buffer holds is
  appended as the last environment line of the draft and the buffer is emptied. With an
  empty buffer the line appended is the empty string.
\<close>

theorem addNewEnvVariable_appends_buffer:
  "additionalEnvironment (settings (addNewEnvVariable st))
     = additionalEnvironment (settings st) @ [additionalEnvironmentToAdd st]
   \<and> additionalEnvironmentToAdd (addNewEnvVariable st) = []
   \<and> additionalEnvironment (settings (addNewEnvVariable (st\<lparr>additionalEnvironmentToAdd := []\<rparr>)))
     = additionalEnvironment (settings st) @ [[]]"
  by (simp add: addNewEnvVariable_def)

end
